theory Spec2Isabelle
  imports Main "HOL-Library.Word"
begin

section \<open>Python values\<close>

text \<open>
  The decoder of \<^verbatim>\<open>scte35.py\<close> builds nested dictionaries whose values are
  integers, booleans, strings, \<^verbatim>\<open>None\<close>, lists and dictionaries. A dictionary is an
  association list with one entry per key, in order of first insertion; a key that was
  never stored is absent, which is different from a key that holds \<^verbatim>\<open>None\<close>.
  \<^verbatim>\<open>MPEG_Time\<close> is a subclass of \<^verbatim>\<open>int\<close> and is modelled by its integer value.
\<close>

datatype pyval =
    PNone
  | PBool bool
  | PInt int
  | PStr string
  | PList "pyval list"
  | PDict "(string \<times> pyval) list"

type_synonym pydict = "(string \<times> pyval) list"

text \<open>\<^verbatim>\<open>d[k] = v\<close>: replace the entry of \<open>k\<close>, or add one.\<close>

fun dict_set :: "pydict \<Rightarrow> string \<Rightarrow> pyval \<Rightarrow> pydict" where
  "dict_set [] k v = [(k, v)]"
| "dict_set ((k', v') # d) k v =
     (if k' = k then (k, v) # d else (k', v') # dict_set d k v)"

text \<open>\<^verbatim>\<open>d.get(k)\<close>, with \<open>None\<close> for an absent key.\<close>

definition dict_get :: "pydict \<Rightarrow> string \<Rightarrow> pyval option" where
  "dict_get d k = map_of d k"

text \<open>\<^verbatim>\<open>k in d\<close>.\<close>

definition dict_has :: "pydict \<Rightarrow> string \<Rightarrow> bool" where
  "dict_has d k = (k \<in> set (map fst d))"

text \<open>
  \<^verbatim>\<open>d[k].append(v)\<close>. Every call site stores a list under \<open>k\<close> first; on anything
  else Python would raise, and the model leaves the dictionary as it is.
\<close>

definition dict_append :: "pydict \<Rightarrow> string \<Rightarrow> pyval \<Rightarrow> pydict" where
  "dict_append d k v =
     (case map_of d k of
        Some (PList xs) \<Rightarrow> dict_set d k (PList (xs @ [v]))
      | _ \<Rightarrow> d)"

section \<open>The bit reader\<close>

text \<open>
  Modelled from the spec: the \<^verbatim>\<open>bitstring\<close> package that \<^verbatim>\<open>scte35.py\<close> imports is not
  among the sources. Section 4.1 of the specification describes it as a byte buffer
  with a zero-based bit offset: a read of \<open>n\<close> bits returns them as a big-endian
  unsigned integer and advances the offset by \<open>n\<close>, and a read or a skip that would
  pass the end of the buffer fails (\<open>OutOfData\<close>, section 7).
\<close>

datatype error =
    InvalidTableId int              \<comment> \<open>\<^verbatim>\<open>Exception("table_id %d invalid. Should be 0xfc")\<close>\<close>
  | UnsupportedSpliceCommand int    \<comment> \<open>\<^verbatim>\<open>Exception("splice_command_type: %d not yet supported")\<close>\<close>
  | OutOfData                       \<comment> \<open>raised by the bit reader\<close>
  | NameError                       \<comment> \<open>raised by the use of a name that is not defined\<close>

record bitstring =
  data :: "bool list"
  pos :: nat

definition len :: "bitstring \<Rightarrow> nat" where
  "len b = length (data b)"

text \<open>The \<open>n\<close> low bits of a number, most significant bit first.\<close>

fun bits_of :: "nat \<Rightarrow> nat \<Rightarrow> bool list" where
  "bits_of 0 v = []"
| "bits_of (Suc n) v = bits_of n (v div 2) @ [odd v]"

text \<open>\<^verbatim>\<open>bitstring.BitString(bytes=input_bytes)\<close>\<close>

definition BitString :: "8 word list \<Rightarrow> bitstring" where
  "BitString input_bytes =
     \<lparr>data = concat (map (\<lambda>w. bits_of 8 (unat w)) input_bytes), pos = 0\<rparr>"

definition uint_of :: "bool list \<Rightarrow> int" where
  "uint_of bs = foldl (\<lambda>a b. 2 * a + (if b then 1 else 0)) 0 bs"

definition hex_digit :: "nat \<Rightarrow> char" where
  "hex_digit n = ''0123456789abcdef'' ! n"

text \<open>
  The \<^verbatim>\<open>.hex\<close> rendering: one lowercase digit for every four bits. The decoder only
  renders 8, 12 and a multiple of 8 bits.
\<close>

fun hex_of :: "bool list \<Rightarrow> string" where
  "hex_of (a # b # c # d # rest) = hex_digit (nat (uint_of [a, b, c, d])) # hex_of rest"
| "hex_of _ = []"

text \<open>\<^verbatim>\<open>int(s, 16)\<close> on a string of lowercase hexadecimal digits.\<close>

definition int16 :: "string \<Rightarrow> int" where
  "int16 s =
     foldl (\<lambda>a c. 16 * a + int (length (takeWhile (\<lambda>d. d \<noteq> c) ''0123456789abcdef''))) 0 s"

text \<open>
  A parser step takes the reader and returns an error, or a value and the reader with
  its offset advanced.
\<close>

type_synonym 'a parser = "bitstring \<Rightarrow> error + ('a \<times> bitstring)"

definition returnP :: "'a \<Rightarrow> 'a parser" where
  "returnP x = (\<lambda>b. Inr (x, b))"

definition raiseP :: "error \<Rightarrow> 'a parser" where
  "raiseP e = (\<lambda>b. Inl e)"

definition bindP :: "'a parser \<Rightarrow> ('a \<Rightarrow> 'b parser) \<Rightarrow> 'b parser" where
  "bindP m f = (\<lambda>b. case m b of Inl e \<Rightarrow> Inl e | Inr (x, b') \<Rightarrow> f x b')"

text \<open>\<^verbatim>\<open>bitarray.read(n)\<close>\<close>

definition read_bits :: "nat \<Rightarrow> bool list parser" where
  "read_bits n = (\<lambda>b.
     if pos b + n \<le> len b
     then Inr (take n (drop (pos b) (data b)), b\<lparr>pos := pos b + n\<rparr>)
     else Inl OutOfData)"

text \<open>\<^verbatim>\<open>bitarray.read("uint:n")\<close>\<close>

definition read_uint :: "nat \<Rightarrow> int parser" where
  "read_uint n = bindP (read_bits n) (\<lambda>bs. returnP (uint_of bs))"

text \<open>\<^verbatim>\<open>bitarray.read("bool")\<close>\<close>

definition read_bool :: "bool parser" where
  "read_bool = bindP (read_bits 1) (\<lambda>bs. returnP (uint_of bs = 1))"

text \<open>\<^verbatim>\<open>bitarray.read("hex:n")\<close> and \<^verbatim>\<open>bitarray.read(n).hex\<close>\<close>

definition read_hex :: "nat \<Rightarrow> string parser" where
  "read_hex n = bindP (read_bits n) (\<lambda>bs. returnP (hex_of bs))"

text \<open>\<^verbatim>\<open>bitarray.pos += n\<close>\<close>

definition skip :: "nat \<Rightarrow> unit parser" where
  "skip n = (\<lambda>b.
     if pos b + n \<le> len b then Inr ((), b\<lparr>pos := pos b + n\<rparr>) else Inl OutOfData)"

section \<open>The fixed table\<close>

text \<open>
  The label of \<open>19\<close> holds three characters outside ASCII (line 52 of the source);
  they are written as the eight bytes of their UTF-8 encoding.
\<close>

definition SEGMENTATION_TYPE_IDS :: "(string \<times> string) list" where
  "SEGMENTATION_TYPE_IDS =
   [(''00'', ''Not Indicated''),
    (''01'', ''Content Identification''),
    (''10'', ''Program Start''),
    (''11'', ''Program End''),
    (''12'', ''Program Early Termination''),
    (''13'', ''Program Breakaway''),
    (''14'', ''Program Resumption''),
    (''15'', ''Program Runover Planned''),
    (''16'', ''Program Runover Unplanned''),
    (''17'', ''Program Overlap Start''),
    (''18'', ''Program Blackout Override''),
    (''19'', ''Program Start '' @
             [CHR 0xC3, CHR 0xA2, CHR 0xE2, CHR 0x82, CHR 0xAC, CHR 0xE2, CHR 0x80, CHR 0x9C] @
             '' In Progress''),
    (''20'', ''Chapter Start''),
    (''21'', ''Chapter End''),
    (''22'', ''Break Start''),
    (''23'', ''Break End''),
    (''30'', ''Provider Advertisement Start''),
    (''31'', ''Provider Advertisement End''),
    (''32'', ''Distributor Advertisement Start''),
    (''33'', ''Distributor Advertisement End''),
    (''34'', ''Provider Placement Opportunity Start''),
    (''35'', ''Provider Placement Opportunity End''),
    (''36'', ''Distributor Placement Opportunity Start''),
    (''37'', ''Distributor Placement Opportunity End''),
    (''40'', ''Unscheduled Event Start''),
    (''41'', ''Unscheduled Event End''),
    (''50'', ''Network Start''),
    (''51'', ''Network End'')]"

text \<open>\<^verbatim>\<open>SpliceDescriptor.SEGMENTATION_DESCRIPTOR\<close>\<close>

definition SEGMENTATION_DESCRIPTOR :: int where
  "SEGMENTATION_DESCRIPTOR = 2"

section \<open>The splice commands\<close>

definition parse_splice_time :: "pyval parser" where
  "parse_splice_time =
     bindP read_bool (\<lambda>time_specified_flag.
     let splice_time = dict_set [] ''time_specified_flag'' (PBool time_specified_flag) in
     if time_specified_flag then
       bindP (skip 6) (\<lambda>_.
       bindP (read_uint 33) (\<lambda>pts_time.
       returnP (PDict (dict_set splice_time ''pts_time'' (PInt pts_time)))))
     else
       bindP (skip 7) (\<lambda>_.
       returnP (PDict splice_time)))"

definition parse_break_duration :: "pyval parser" where
  "parse_break_duration =
     bindP read_bool (\<lambda>auto_return.
     let break_duration = dict_set [] ''auto_return'' (PBool auto_return) in
     bindP (skip 6) (\<lambda>_.
     bindP (read_uint 33) (\<lambda>duration.
     returnP (PDict (dict_set break_duration ''duration'' (PInt duration))))))"

text \<open>
  \<^verbatim>\<open>xrange\<close>. The module neither defines nor imports this name, and it is not a
  builtin of Python 3, the only interpreter that loads the file: line 52 holds bytes
  outside ASCII and the file has no coding declaration, which Python 2 refuses. The
  call raises \<^verbatim>\<open>NameError\<close> for all arguments. The loop of
  \<^verbatim>\<open>__parse_segmentation_descriptor\<close> uses \<^verbatim>\<open>range\<close>.
\<close>

definition xrange :: "int \<Rightarrow> int \<Rightarrow> error + int list" where
  "xrange start stop = Inl NameError"

text \<open>
  The body of \<^verbatim>\<open>for i in xrange(0, ssi["component_count"])\<close> in
  \<^verbatim>\<open>__parse_splice_insert\<close>, run once for every index the iterable yields.
\<close>

fun splice_insert_components :: "int list \<Rightarrow> bool \<Rightarrow> pydict \<Rightarrow> pydict parser" where
  "splice_insert_components [] splice_immediate_flag ssi = returnP ssi"
| "splice_insert_components (i # indices) splice_immediate_flag ssi =
     bindP (read_uint 8) (\<lambda>tag.
     let component = dict_set [] ''tag'' (PInt tag);
         component = dict_set component ''splice_time'' PNone in
     bindP (if splice_immediate_flag
            then bindP parse_splice_time (\<lambda>splice_time.
                 returnP (dict_set component ''splice_time'' splice_time))
            else returnP component) (\<lambda>component.
     splice_insert_components indices splice_immediate_flag
       (dict_append ssi ''components'' (PDict component))))"

text \<open>
  \<^verbatim>\<open>__parse_splice_insert\<close>. The \<^verbatim>\<open>return ssi\<close> of the source is the last statement
  of the block under \<^verbatim>\<open>if not ssi["splice_event_cancel_indicator"]\<close>; when the
  indicator is set the function reaches its end and returns \<^verbatim>\<open>None\<close>. With the
  program splice flag clear, the \<^verbatim>\<open>for\<close> statement evaluates \<^verbatim>\<open>xrange\<close> before
  its first iteration.
\<close>

definition parse_splice_insert :: "pyval parser" where
  "parse_splice_insert =
     bindP (read_uint 32) (\<lambda>splice_event_id.
     let ssi = dict_set [] ''splice_id'' (PInt splice_event_id);
         ssi = dict_set ssi ''components'' (PList []) in
     bindP read_bool (\<lambda>splice_event_cancel_indicator.
     let ssi = dict_set ssi ''splice_event_cancel_indicator''
                 (PBool splice_event_cancel_indicator) in
     bindP (skip 7) (\<lambda>_.
     if \<not> splice_event_cancel_indicator then
       bindP read_bool (\<lambda>out_of_network_indicator.
       let ssi = dict_set ssi ''out_of_network_indicator'' (PBool out_of_network_indicator) in
       bindP read_bool (\<lambda>program_splice_flag.
       let ssi = dict_set ssi ''program_splice_flag'' (PBool program_splice_flag) in
       bindP read_bool (\<lambda>duration_flag.
       let ssi = dict_set ssi ''duration_flag'' (PBool duration_flag) in
       bindP read_bool (\<lambda>splice_immediate_flag.
       let ssi = dict_set ssi ''splice_immediate_flag'' (PBool splice_immediate_flag) in
       bindP (skip 4) (\<lambda>_.
       bindP (if program_splice_flag \<and> \<not> splice_immediate_flag
              then bindP parse_splice_time (\<lambda>splice_time.
                   returnP (dict_set ssi ''splice_time'' splice_time))
              else returnP ssi) (\<lambda>ssi.
       bindP (if \<not> program_splice_flag
              then bindP (read_uint 8) (\<lambda>component_count.
                   let ssi = dict_set ssi ''component_count'' (PInt component_count) in
                   (case xrange 0 component_count of
                      Inl e \<Rightarrow> raiseP e
                    | Inr indices \<Rightarrow>
                        splice_insert_components indices splice_immediate_flag ssi))
              else returnP ssi) (\<lambda>ssi.
       bindP (if duration_flag
              then bindP parse_break_duration (\<lambda>break_duration.
                   returnP (dict_set ssi ''break_duration'' break_duration))
              else returnP ssi) (\<lambda>ssi.
       bindP (read_uint 16) (\<lambda>unique_program_id.
       let ssi = dict_set ssi ''unique_program_id'' (PInt unique_program_id) in
       bindP (read_uint 8) (\<lambda>avail_num.
       let ssi = dict_set ssi ''avail_num'' (PInt avail_num) in
       bindP (read_uint 8) (\<lambda>avails_expected.
       let ssi = dict_set ssi ''avails_expected'' (PInt avails_expected) in
       returnP (PDict ssi))))))))))))
     else
       returnP PNone)))"

definition parse_time_signal :: "pyval parser" where
  "parse_time_signal =
     bindP parse_splice_time (\<lambda>splice_time.
     returnP (PDict (dict_set [] ''splice_time'' splice_time)))"

section \<open>The splice descriptors\<close>

text \<open>
  The body of \<^verbatim>\<open>for i in range(segmentation_descriptor["component_count"])\<close> in
  \<^verbatim>\<open>__parse_segmentation_descriptor\<close>.
\<close>

fun segmentation_components :: "nat \<Rightarrow> pydict \<Rightarrow> pydict parser" where
  "segmentation_components 0 segmentation_descriptor = returnP segmentation_descriptor"
| "segmentation_components (Suc n) segmentation_descriptor =
     bindP (read_uint 8) (\<lambda>component_tag.
     let component = dict_set [] ''component_tag'' (PInt component_tag) in
     bindP (skip 7) (\<lambda>_.
     bindP (read_uint 33) (\<lambda>pts_offset.
     let component = dict_set component ''pts_offset'' (PInt pts_offset) in
     segmentation_components n
       (dict_append segmentation_descriptor ''components'' (PDict component)))))"

definition parse_segmentation_upid :: "int \<Rightarrow> int \<Rightarrow> string parser" where
  "parse_segmentation_upid upid_type length' = read_hex (nat (length' * 8))"

text \<open>
  The last part of \<^verbatim>\<open>__parse_segmentation_descriptor\<close>, from the read of
  \<^verbatim>\<open>segmentation_type_id\<close> to \<^verbatim>\<open>return segmentation_descriptor\<close>. The two tests
  on \<^verbatim>\<open>segmentation_descriptor["segmentation_type_id"]\<close> read the dictionary, as the
  source does: the test for the sub-segment fields comes first, the lookup in the table
  second.
\<close>

definition segmentation_type_fields :: "pydict \<Rightarrow> pyval parser" where
  "segmentation_type_fields sd =
     bindP (read_hex 8) (\<lambda>segmentation_type_id.
     let sd = dict_set sd ''segmentation_type_id'' (PStr segmentation_type_id) in
     bindP (read_uint 8) (\<lambda>segment_num.
     let sd = dict_set sd ''segment_num'' (PInt segment_num) in
     bindP (read_uint 8) (\<lambda>segments_expected.
     let sd = dict_set sd ''segments_expected'' (PInt segments_expected) in
     bindP (if dict_get sd ''segmentation_type_id'' = Some (PStr ''34'')
               \<or> dict_get sd ''segmentation_type_id'' = Some (PStr ''36'')
            then bindP (read_uint 8) (\<lambda>sub_segment_num.
                 bindP (read_uint 8) (\<lambda>sub_segments_expected.
                 let sd = dict_set sd ''sub_segment_num'' (PInt sub_segment_num);
                     sd = dict_set sd ''sub_segments_expected''
                            (PInt sub_segments_expected) in
                 returnP sd))
            else returnP sd) (\<lambda>sd.
     let sd = (case dict_get sd ''segmentation_type_id'' of
                 Some (PStr code) \<Rightarrow>
                   (case map_of SEGMENTATION_TYPE_IDS code of
                      Some label \<Rightarrow> dict_set sd ''segmentation_type_id'' (PStr label)
                    | None \<Rightarrow> sd)
               | _ \<Rightarrow> sd) in
     returnP (PDict sd)))))"

text \<open>
  \<^verbatim>\<open>__parse_segmentation_descriptor\<close>, up to the segmentation UPID; the rest is
  \<open>segmentation_type_fields\<close>. The local \<^verbatim>\<open>descriptor_data_length\<close> is computed and
  never used, so it is left out.
\<close>

definition parse_segmentation_descriptor :: "int \<Rightarrow> int \<Rightarrow> pyval parser" where
  "parse_segmentation_descriptor tag length' =
     (let sd = dict_set [] ''splice_descriptor_tag'' (PInt tag);
          sd = dict_set sd ''descriptor_length'' (PInt length') in
      bindP (read_uint 32) (\<lambda>identifier.
      let sd = dict_set sd ''identifier'' (PInt identifier) in
      bindP (read_uint 32) (\<lambda>segmentation_event_id.
      let sd = dict_set sd ''segmentation_event_id'' (PInt segmentation_event_id) in
      bindP read_bool (\<lambda>segmentation_event_cancel_indicator.
      let sd = dict_set sd ''segmentation_event_cancel_indicator''
                 (PBool segmentation_event_cancel_indicator) in
      bindP (skip 7) (\<lambda>_.
      if \<not> segmentation_event_cancel_indicator then
        bindP read_bool (\<lambda>program_segmentation_flag.
        let sd = dict_set sd ''program_segmentation_flag'' (PBool program_segmentation_flag) in
        bindP read_bool (\<lambda>segmentation_duration_flag.
        let sd = dict_set sd ''segmentation_duration_flag'' (PBool segmentation_duration_flag) in
        bindP read_bool (\<lambda>delivery_not_restricted_flag.
        let sd = dict_set sd ''delivery_not_restricted_flag''
                   (PBool delivery_not_restricted_flag) in
        bindP (if \<not> delivery_not_restricted_flag
               then bindP read_bool (\<lambda>web_delivery_allowed_flag.
                    bindP read_bool (\<lambda>no_regional_blackout_flag.
                    bindP read_bool (\<lambda>archive_allowed_flag.
                    bindP (read_uint 2) (\<lambda>device_restrictions.
                    let sd = dict_set sd ''web_delivery_allowed_flag''
                               (PBool web_delivery_allowed_flag);
                        sd = dict_set sd ''no_regional_blackout_flag''
                               (PBool no_regional_blackout_flag);
                        sd = dict_set sd ''archive_allowed_flag'' (PBool archive_allowed_flag);
                        sd = dict_set sd ''device_restrictions'' (PInt device_restrictions) in
                    returnP sd))))
               else bindP (skip 5) (\<lambda>_. returnP sd)) (\<lambda>sd.
        bindP (if \<not> program_segmentation_flag
               then bindP (read_uint 8) (\<lambda>component_count.
                    let sd = dict_set sd ''component_count'' (PInt component_count);
                        sd = dict_set sd ''components'' (PList []) in
                    segmentation_components (nat component_count) sd)
               else returnP sd) (\<lambda>sd.
        bindP (if segmentation_duration_flag
               then bindP (read_uint 40) (\<lambda>segmentation_duration.
                    returnP (dict_set sd ''segmentation_duration'' (PInt segmentation_duration)))
               else returnP sd) (\<lambda>sd.
        bindP (read_hex 8) (\<lambda>segmentation_upid_type.
        let sd = dict_set sd ''segmentation_upid_type'' (PStr segmentation_upid_type) in
        bindP (read_uint 8) (\<lambda>segmentation_upid_length.
        let sd = dict_set sd ''segmentation_upid_length'' (PInt segmentation_upid_length) in
        bindP (parse_segmentation_upid (int16 segmentation_upid_type)
                 segmentation_upid_length) (\<lambda>segmentation_upid.
        let sd = dict_set sd ''segmentation_upid'' (PStr segmentation_upid) in
        segmentation_type_fields sd)))))))))
      else
        returnP (PDict sd))))))"

text \<open>
  The \<^verbatim>\<open>while length:\<close> loop of \<^verbatim>\<open>__parse_splice_descriptors\<close>, with the local
  \<^verbatim>\<open>results\<close> as an accumulator. Python's \<^verbatim>\<open>while length:\<close> runs as long as
  \<^verbatim>\<open>length\<close> is not zero. When the tag was the last byte of the buffer the source
  sets \<^verbatim>\<open>length = 0\<close>, appends the stub and tests the loop condition again.
  The parameter is written \<open>length'\<close>, since \<open>length\<close> is the list function.
\<close>

function splice_descriptors_loop ::
  "bitstring \<Rightarrow> int \<Rightarrow> pyval list \<Rightarrow> error + (pyval list \<times> bitstring)" where
  "splice_descriptors_loop bitarray length' results =
     (if length' \<noteq> 0 then
        (case read_uint 8 bitarray of
           Inl e \<Rightarrow> Inl e
         | Inr (splice_descriptor_tag, b1) \<Rightarrow>
             if pos b1 = len b1 then
               splice_descriptors_loop b1 0
                 (results @ [PDict [(''splice_descriptor_tag'', PInt splice_descriptor_tag),
                                    (''descriptor_length'', PInt 0)]])
             else
               (case read_uint 8 b1 of
                  Inl e \<Rightarrow> Inl e
                | Inr (descriptor_length, b2) \<Rightarrow>
                    (case (if splice_descriptor_tag = SEGMENTATION_DESCRIPTOR
                           then parse_segmentation_descriptor splice_descriptor_tag
                                  descriptor_length b2
                           else Inr (PDict [(''splice_descriptor_tag'',
                                               PInt splice_descriptor_tag),
                                            (''descriptor_length'', PInt descriptor_length)],
                                     b2)) of
                       Inl e \<Rightarrow> Inl e
                     | Inr (splice_descriptor, b3) \<Rightarrow>
                         splice_descriptors_loop b3 (length' - (descriptor_length + 2))
                           (results @ [splice_descriptor]))))
      else Inr (results, bitarray))"
  by pat_completeness auto

definition parse_splice_descriptors ::
  "bitstring \<Rightarrow> int \<Rightarrow> error + (pyval list \<times> bitstring)" where
  "parse_splice_descriptors bitarray length' = splice_descriptors_loop bitarray length' []"

section \<open>The section\<close>

text \<open>
  \<^verbatim>\<open>parse\<close>, in two parts. The first is the source from the read of
  \<^verbatim>\<open>table_id\<close> to \<^verbatim>\<open>splice_info_section["splice_descriptors"] = None\<close>.
\<close>

definition parse_section_fields :: "pydict parser" where
  "parse_section_fields =
     bindP (read_uint 8) (\<lambda>table_id.
     if table_id \<noteq> 0xfc then raiseP (InvalidTableId table_id)
     else
       bindP read_bool (\<lambda>section_syntax_indicator.
       let sis = dict_set [] ''section_syntax_indicator'' (PBool section_syntax_indicator) in
       bindP read_bool (\<lambda>private_indicator.
       let sis = dict_set sis ''private_indicator'' (PBool private_indicator) in
       bindP (skip 2) (\<lambda>_.
       bindP (read_uint 12) (\<lambda>section_length.
       let sis = dict_set sis ''section_length'' (PInt section_length) in
       bindP (read_uint 8) (\<lambda>protocol_version.
       let sis = dict_set sis ''protocol_version'' (PInt protocol_version) in
       bindP read_bool (\<lambda>encrypted_packet.
       let sis = dict_set sis ''encrypted_packet'' (PBool encrypted_packet) in
       bindP (read_uint 6) (\<lambda>encryption_algorithm.
       let sis = dict_set sis ''encryption_algorithm'' (PInt encryption_algorithm) in
       bindP (read_uint 33) (\<lambda>pts_adjustment.
       let sis = dict_set sis ''pts_adjustment'' (PInt pts_adjustment) in
       bindP (read_uint 8) (\<lambda>cw_index.
       let sis = dict_set sis ''cw_index'' (PInt cw_index) in
       bindP (read_hex 12) (\<lambda>tier.
       let sis = dict_set sis ''tier'' (PStr tier) in
       bindP (read_uint 12) (\<lambda>splice_command_length.
       let sis = dict_set sis ''splice_command_length'' (PInt splice_command_length) in
       bindP (read_uint 8) (\<lambda>splice_command_type.
       let sis = dict_set sis ''splice_command_type'' (PInt splice_command_type) in
       bindP (if splice_command_type = 5 then parse_splice_insert
              else if splice_command_type = 6 then parse_time_signal
              else raiseP (UnsupportedSpliceCommand splice_command_type)) (\<lambda>splice_command.
       let sis = dict_set sis ''splice_command'' splice_command in
       bindP (read_uint 16) (\<lambda>splice_descriptor_loop_length.
       let sis = dict_set sis ''splice_descriptor_loop_length''
                   (PInt splice_descriptor_loop_length);
           sis = dict_set sis ''splice_descriptors'' PNone in
       returnP sis)))))))))))))))"

text \<open>
  The second part is the guarded call of the descriptor loop. An exception raised in
  the loop is caught and printed; nothing is stored then. The integer under
  \<^verbatim>\<open>splice_descriptor_loop_length\<close> was stored by the first part, so the last case
  is never taken.
\<close>

definition parse :: "8 word list \<Rightarrow> error + pyval" where
  "parse input_bytes =
     (case parse_section_fields (BitString input_bytes) of
        Inl e \<Rightarrow> Inl e
      | Inr (sis, bitarray) \<Rightarrow>
          (case dict_get sis ''splice_descriptor_loop_length'' of
             Some (PInt splice_descriptor_loop_length) \<Rightarrow>
               if splice_descriptor_loop_length > 0 then
                 (case parse_splice_descriptors bitarray splice_descriptor_loop_length of
                    Inl err \<Rightarrow> Inr (PDict sis)
                  | Inr (results, _) \<Rightarrow>
                      Inr (PDict (dict_set sis ''splice_descriptors'' (PList results))))
               else Inr (PDict sis)
           | _ \<Rightarrow> Inr (PDict sis)))"

section \<open>Properties of the reader\<close>

text \<open>
  A parser advances when every successful run leaves the buffer as it is and does not
  move the offset backwards.
\<close>

definition advances :: "'a parser \<Rightarrow> bool" where
  "advances m = (\<forall>b x b'. m b = Inr (x, b') \<longrightarrow> data b' = data b \<and> pos b \<le> pos b')"

lemma bindP_Inr_E:
  assumes "bindP m f b = Inr r"
  obtains x b1 where "m b = Inr (x, b1)" and "f x b1 = Inr r"
  using assms by (auto simp: bindP_def split: sum.splits)

lemma returnP_Inr [simp]: "returnP x b = Inr (y, b') \<longleftrightarrow> y = x \<and> b' = b"
  by (auto simp: returnP_def)

lemma raiseP_Inr [simp]: "raiseP e b \<noteq> Inr r"
  by (simp add: raiseP_def)

lemma advancesD: "advances m \<Longrightarrow> m b = Inr (x, b') \<Longrightarrow> data b' = data b \<and> pos b \<le> pos b'"
  by (auto simp: advances_def)

lemma advances_returnP [intro!, simp]: "advances (returnP x)"
  by (simp add: advances_def)

lemma advances_raiseP [intro!, simp]: "advances (raiseP e)"
  by (simp add: advances_def)

lemma advances_bindP [intro!]:
  "advances m \<Longrightarrow> (\<And>x. advances (f x)) \<Longrightarrow> advances (bindP m f)"
  unfolding advances_def
  by (fastforce elim!: bindP_Inr_E)

lemma advances_if [intro!]:
  "(c \<Longrightarrow> advances m) \<Longrightarrow> (\<not> c \<Longrightarrow> advances m') \<Longrightarrow> advances (if c then m else m')"
  by simp

lemma advances_let [intro!]: "advances (f v) \<Longrightarrow> advances (let x = v in f x)"
  by simp

lemma advances_read_bits [intro!, simp]: "advances (read_bits n)"
  by (auto simp: advances_def read_bits_def split: if_splits)

lemma advances_skip [intro!, simp]: "advances (skip n)"
  by (auto simp: advances_def skip_def split: if_splits)

lemma advances_read_uint [intro!, simp]: "advances (read_uint n)"
  unfolding read_uint_def by blast

lemma advances_read_bool [intro!, simp]: "advances read_bool"
  unfolding read_bool_def by blast

lemma advances_read_hex [intro!, simp]: "advances (read_hex n)"
  unfolding read_hex_def by blast

lemma advances_segmentation_components [intro!, simp]:
  "advances (segmentation_components n sd)"
  by (induction n arbitrary: sd) auto

lemma advances_parse_segmentation_upid [intro!, simp]:
  "advances (parse_segmentation_upid t l)"
  by (simp add: parse_segmentation_upid_def)

lemma advances_segmentation_type_fields [intro!, simp]:
  "advances (segmentation_type_fields sd)"
  unfolding segmentation_type_fields_def
  by (intro advances_bindP advances_if advances_let advances_returnP advances_read_uint
      advances_read_hex)

lemma advances_parse_segmentation_descriptor [intro!, simp]:
  "advances (parse_segmentation_descriptor tag l)"
  unfolding parse_segmentation_descriptor_def
  by (intro advances_bindP advances_if advances_let advances_returnP advances_read_uint
      advances_read_bool advances_skip advances_read_hex advances_parse_segmentation_upid
      advances_segmentation_components advances_segmentation_type_fields)

lemma read_uint_Inr:
  "read_uint n b = Inr (v, b') \<Longrightarrow>
     pos b + n \<le> len b \<and> b' = b\<lparr>pos := pos b + n\<rparr> \<and>
     v = uint_of (take n (drop (pos b) (data b)))"
  by (auto simp: read_uint_def read_bits_def bindP_def returnP_def split: if_splits)

lemma parse_segmentation_descriptor_advances:
  "parse_segmentation_descriptor tag l b = Inr (x, b') \<Longrightarrow>
     data b' = data b \<and> pos b \<le> pos b'"
  using advancesD [OF advances_parse_segmentation_descriptor] by blast

text \<open>
  The descriptor loop ends on every input: each iteration that does not raise reads the
  tag byte, so the number of unread bits goes down.
\<close>

termination splice_descriptors_loop
proof (relation "measure (\<lambda>(b, l, r). len b - pos b)", goal_cases)
  case 1
  show ?case by simp
next
  case (2 bitarray length' results x2 tag b1)
  then have "read_uint 8 bitarray = Inr (tag, b1)" by simp
  from read_uint_Inr [OF this] show ?case
    by (auto simp: len_def)
next
  case (3 bitarray length' results x2 tag b1 x2a dl b2 x2b sd b3)
  then have r1: "read_uint 8 bitarray = Inr (tag, b1)"
    and r2: "read_uint 8 b1 = Inr (dl, b2)" by simp_all
  have "data b3 = data b2 \<and> pos b2 \<le> pos b3"
    using 3 parse_segmentation_descriptor_advances [of tag dl b2 sd b3]
    by (auto split: if_splits)
  with read_uint_Inr [OF r1] read_uint_Inr [OF r2] show ?case
    by (auto simp: len_def)
qed

section \<open>Evaluation of the decoder on a given buffer\<close>

text \<open>
  The rules below run the parser on a concrete reader one step at a time: the
  congruence rule \<open>bindP_weak_cong\<close> keeps the simplifier from rewriting the rest of a
  parser before the step in front of it has been evaluated.
\<close>

lemma bits_of_8:
  "bits_of 8 v = [odd (v div 128), odd (v div 64), odd (v div 32), odd (v div 16),
                  odd (v div 8), odd (v div 4), odd (v div 2), odd v]"
proof -
  have e: "(8::nat) = Suc (Suc (Suc (Suc (Suc (Suc (Suc (Suc 0)))))))" by simp
  have "bits_of (Suc (Suc (Suc (Suc (Suc (Suc (Suc (Suc 0)))))))) v =
        [odd (v div 128), odd (v div 64), odd (v div 32), odd (v div 16),
         odd (v div 8), odd (v div 4), odd (v div 2), odd v]"
    by (simp add: div_mult2_eq [symmetric])
  then show ?thesis by (subst e)
qed

lemma bindP_apply: "bindP m f b = (case m b of Inl e \<Rightarrow> Inl e | Inr (x, b') \<Rightarrow> f x b')"
  by (simp add: bindP_def)

lemma bindP_weak_cong: "b = b' \<Longrightarrow> bindP m f b = bindP m f b'"
  by simp

lemma returnP_apply: "returnP x b = Inr (x, b)"
  by (simp add: returnP_def)

lemma raiseP_apply: "raiseP e b = Inl e"
  by (simp add: raiseP_def)

lemma read_bits_apply:
  "read_bits n \<lparr>data = d, pos = p\<rparr> =
     (if p + n \<le> length d then Inr (take n (drop p d), \<lparr>data = d, pos = p + n\<rparr>)
      else Inl OutOfData)"
  by (simp add: read_bits_def len_def)

lemma skip_apply:
  "skip n \<lparr>data = d, pos = p\<rparr> =
     (if p + n \<le> length d then Inr ((), \<lparr>data = d, pos = p + n\<rparr>) else Inl OutOfData)"
  by (simp add: skip_def len_def)

lemma if_apply: "(if c then f else g) x = (if c then f x else g x)"
  by simp

lemmas eval_simps = bindP_apply returnP_apply raiseP_apply read_bits_apply skip_apply if_apply
  read_uint_def read_bool_def read_hex_def len_def BitString_def bits_of_8 uint_of_def
  hex_digit_def dict_get_def dict_has_def dict_append_def xrange_def
  parse_splice_time_def parse_break_duration_def parse_splice_insert_def parse_time_signal_def
  parse_segmentation_upid_def segmentation_type_fields_def parse_segmentation_descriptor_def
  parse_splice_descriptors_def
  parse_section_fields_def parse_def Let_def SEGMENTATION_DESCRIPTOR_def

section \<open>Dictionaries\<close>

lemma dict_get_dict_set:
  "dict_get (dict_set d k v) k' = (if k' = k then Some v else dict_get d k')"
  by (induction d) (auto simp: dict_get_def)



section \<open>The table id\<close>

lemma uint_of_snoc: "uint_of (bs @ [b]) = 2 * uint_of bs + (if b then 1 else 0)"
  by (simp add: uint_of_def)

lemma uint_of_bits_of: "uint_of (bits_of n v) = int (v mod 2 ^ n)"
proof (induction n arbitrary: v)
  case 0
  show ?case by (simp add: uint_of_def)
next
  case (Suc n)
  have "v mod (2 * 2 ^ n) = 2 * (v div 2 mod 2 ^ n) + v mod 2"
    by (simp add: mod_mult2_eq)
  then show ?case
    by (simp add: uint_of_snoc Suc.IH odd_iff_mod_2_eq_one)
qed

lemma length_bits_of [simp]: "length (bits_of n v) = n"
  by (induction n arbitrary: v) auto

lemma read_table_id:
  "read_uint 8 (BitString (w # input_bytes)) =
     Inr (uint w, (BitString (w # input_bytes))\<lparr>pos := 8\<rparr>)"
proof -
  have "unat w mod 2 ^ 8 = unat w"
    using unsigned_less [of w, where ?'a = nat] by simp
  then have "uint_of (bits_of 8 (unat w)) = uint w"
    using uint_of_bits_of [of 8 "unat w"] by simp
  then show ?thesis
    by (simp add: read_uint_def read_bits_def bindP_def returnP_def BitString_def len_def)
qed

text \<open>
  C6. A buffer whose first byte is not \<open>0xFC\<close> is rejected with the table-id error:
  the decoder returns the error and no section.
\<close>

theorem parse_invalid_table_id:
  "w \<noteq> 0xFC \<Longrightarrow> parse (w # input_bytes) = Inl (InvalidTableId (uint w))"
proof -
  assume "w \<noteq> 0xFC"
  then have "uint w \<noteq> uint (0xFC :: 8 word)"
    by (simp only: word_uint_eq_iff [symmetric] not_False_eq_True)
  then have "uint w \<noteq> 0xfc" by simp
  then show ?thesis
    by (simp add: parse_def parse_section_fields_def bindP_apply read_table_id raiseP_apply)
qed

theorem parse_invalid_table_id_witness:
  "(0x47 :: 8 word) \<noteq> 0xFC \<and>
   parse [0x47, 0x30, 0x11] = Inl (InvalidTableId 0x47)"
  using parse_invalid_table_id [of "0x47" "[0x30, 0x11]"] by simp

section \<open>The descriptor loop on concrete sections\<close>

text \<open>
  The sections below share a 15-byte prefix: table id \<open>0xFC\<close>, the header fields,
  command type 6 (time signal) and a splice time without a time. The two bytes after it
  are the descriptor loop length, and the descriptors follow at bit 136.
\<close>

text \<open>
  C1. The loop length is 5 and the descriptors are \<open>(tag 1, length 1, body 0x63)\<close> and
  \<open>(tag 0, length 0)\<close>. After the stub for tag 1 the cursor is left on the body byte:
  the next iteration reads \<open>0x63 = 99\<close> as a tag and the tag byte of the second
  descriptor as its length. A decoder that skipped the body would return the stubs
  \<open>(1, 1)\<close> and \<open>(0, 0)\<close>.
\<close>

theorem generic_descriptor_body_not_skipped:
  "parse [0xFC, 0x30, 0x11, 0, 0, 0, 0, 0, 0, 0, 0xFF, 0xF0, 0x01, 0x06, 0x7F,
          0, 5, 1, 1, 0x63, 0, 0] =
   Inr (PDict
     [(''section_syntax_indicator'', PBool False), (''private_indicator'', PBool False),
      (''section_length'', PInt 17), (''protocol_version'', PInt 0),
      (''encrypted_packet'', PBool False), (''encryption_algorithm'', PInt 0),
      (''pts_adjustment'', PInt 0), (''cw_index'', PInt 0), (''tier'', PStr ''fff''),
      (''splice_command_length'', PInt 1), (''splice_command_type'', PInt 6),
      (''splice_command'',
         PDict [(''splice_time'', PDict [(''time_specified_flag'', PBool False)])]),
      (''splice_descriptor_loop_length'', PInt 5),
      (''splice_descriptors'',
         PList [PDict [(''splice_descriptor_tag'', PInt 1), (''descriptor_length'', PInt 1)],
                PDict [(''splice_descriptor_tag'', PInt 99),
                       (''descriptor_length'', PInt 0)]])])"
  by (simp add: eval_simps cong: bindP_weak_cong)

text \<open>
  C4. The loop length is 1 and the first descriptor is \<open>(tag 0, length 0)\<close>, which takes
  two bytes: the budget becomes \<open>-1\<close>. The loop does not end there; it runs once more
  and reads the next byte, \<open>1\<close>, as the tag of a second descriptor.
\<close>

theorem negative_budget_continues:
  "parse [0xFC, 0x30, 0x11, 0, 0, 0, 0, 0, 0, 0, 0xFF, 0xF0, 0x01, 0x06, 0x7F,
          0, 1, 0, 0, 1] =
   Inr (PDict
     [(''section_syntax_indicator'', PBool False), (''private_indicator'', PBool False),
      (''section_length'', PInt 17), (''protocol_version'', PInt 0),
      (''encrypted_packet'', PBool False), (''encryption_algorithm'', PInt 0),
      (''pts_adjustment'', PInt 0), (''cw_index'', PInt 0), (''tier'', PStr ''fff''),
      (''splice_command_length'', PInt 1), (''splice_command_type'', PInt 6),
      (''splice_command'',
         PDict [(''splice_time'', PDict [(''time_specified_flag'', PBool False)])]),
      (''splice_descriptor_loop_length'', PInt 1),
      (''splice_descriptors'',
         PList [PDict [(''splice_descriptor_tag'', PInt 0), (''descriptor_length'', PInt 0)],
                PDict [(''splice_descriptor_tag'', PInt 1),
                       (''descriptor_length'', PInt 0)]])])"
  by (simp add: eval_simps cong: bindP_weak_cong)

text \<open>
  C2. A splice insert (command type 5) with event id 1 and the cancel indicator set.
  The command decoder returns \<^verbatim>\<open>None\<close>: the section holds no record of the event id
  or of the indicator.
\<close>

theorem splice_insert_cancel_returns_None:
  "parse [0xFC, 0x30, 0x11, 0, 0, 0, 0, 0, 0, 0, 0xFF, 0xF0, 0x05, 0x05,
          0, 0, 0, 1, 0xFF, 0, 0] =
   Inr (PDict
     [(''section_syntax_indicator'', PBool False), (''private_indicator'', PBool False),
      (''section_length'', PInt 17), (''protocol_version'', PInt 0),
      (''encrypted_packet'', PBool False), (''encryption_algorithm'', PInt 0),
      (''pts_adjustment'', PInt 0), (''cw_index'', PInt 0), (''tier'', PStr ''fff''),
      (''splice_command_length'', PInt 5), (''splice_command_type'', PInt 5),
      (''splice_command'', PNone),
      (''splice_descriptor_loop_length'', PInt 0),
      (''splice_descriptors'', PNone)])"
  by (simp add: eval_simps cong: bindP_weak_cong)

text \<open>
  C9, as stated, fails: with a descriptor loop length of 0 the field
  \<^verbatim>\<open>splice_descriptors\<close> holds \<^verbatim>\<open>None\<close>, not an empty list.
\<close>

theorem zero_loop_length_counterexample:
  "parse [0xFC, 0x30, 0x11, 0, 0, 0, 0, 0, 0, 0, 0xFF, 0xF0, 0x01, 0x06, 0x7F, 0, 0] =
   Inr (PDict
     [(''section_syntax_indicator'', PBool False), (''private_indicator'', PBool False),
      (''section_length'', PInt 17), (''protocol_version'', PInt 0),
      (''encrypted_packet'', PBool False), (''encryption_algorithm'', PInt 0),
      (''pts_adjustment'', PInt 0), (''cw_index'', PInt 0), (''tier'', PStr ''fff''),
      (''splice_command_length'', PInt 1), (''splice_command_type'', PInt 6),
      (''splice_command'',
         PDict [(''splice_time'', PDict [(''time_specified_flag'', PBool False)])]),
      (''splice_descriptor_loop_length'', PInt 0),
      (''splice_descriptors'', PNone)])
   \<and> PNone \<noteq> PList []"
  by (simp add: eval_simps cong: bindP_weak_cong)

text \<open>
  C3, as stated, fails. The loop length is 4; the first descriptor \<open>(tag 0, length 0)\<close>
  decodes (with a budget of 2 the loop returns it), the second is a segmentation
  descriptor cut off after one byte, and the loop raises. The section is returned with
  \<^verbatim>\<open>None\<close> under \<^verbatim>\<open>splice_descriptors\<close>, not with the list of the first descriptor.
\<close>

theorem descriptor_failure_counterexample:
  "parse_splice_descriptors
     ((BitString [0xFC, 0x30, 0x11, 0, 0, 0, 0, 0, 0, 0, 0xFF, 0xF0, 0x01, 0x06, 0x7F,
                  0, 4, 0, 0, 2, 5, 0xAA])\<lparr>pos := 136\<rparr>) 2 =
   Inr ([PDict [(''splice_descriptor_tag'', PInt 0), (''descriptor_length'', PInt 0)]],
        (BitString [0xFC, 0x30, 0x11, 0, 0, 0, 0, 0, 0, 0, 0xFF, 0xF0, 0x01, 0x06, 0x7F,
                    0, 4, 0, 0, 2, 5, 0xAA])\<lparr>pos := 152\<rparr>)
   \<and> parse_splice_descriptors
     ((BitString [0xFC, 0x30, 0x11, 0, 0, 0, 0, 0, 0, 0, 0xFF, 0xF0, 0x01, 0x06, 0x7F,
                  0, 4, 0, 0, 2, 5, 0xAA])\<lparr>pos := 136\<rparr>) 4 = Inl OutOfData
   \<and> parse [0xFC, 0x30, 0x11, 0, 0, 0, 0, 0, 0, 0, 0xFF, 0xF0, 0x01, 0x06, 0x7F,
            0, 4, 0, 0, 2, 5, 0xAA] =
   Inr (PDict
     [(''section_syntax_indicator'', PBool False), (''private_indicator'', PBool False),
      (''section_length'', PInt 17), (''protocol_version'', PInt 0),
      (''encrypted_packet'', PBool False), (''encryption_algorithm'', PInt 0),
      (''pts_adjustment'', PInt 0), (''cw_index'', PInt 0), (''tier'', PStr ''fff''),
      (''splice_command_length'', PInt 1), (''splice_command_type'', PInt 6),
      (''splice_command'',
         PDict [(''splice_time'', PDict [(''time_specified_flag'', PBool False)])]),
      (''splice_descriptor_loop_length'', PInt 4),
      (''splice_descriptors'', PNone)])"
  by (simp add: eval_simps cong: bindP_weak_cong)

section \<open>The section and its descriptor list\<close>

lemma parse_section_fields_descriptors:
  assumes "parse_section_fields b = Inr (sis, b')"
  shows "dict_get sis ''splice_descriptors'' = Some PNone"
    and "\<exists>n. dict_get sis ''splice_descriptor_loop_length'' = Some (PInt n)"
  using assms unfolding parse_section_fields_def
  by (auto elim!: bindP_Inr_E simp: Let_def dict_get_def split: if_splits)

text \<open>
  C9, amended. When the descriptor loop length of the returned section is 0, the loop
  is not run and the field \<^verbatim>\<open>splice_descriptors\<close> holds \<^verbatim>\<open>None\<close>.
\<close>

theorem zero_loop_length_None:
  assumes "parse input_bytes = Inr (PDict sec)"
    and "dict_get sec ''splice_descriptor_loop_length'' = Some (PInt 0)"
  shows "dict_get sec ''splice_descriptors'' = Some PNone"
proof -
  from assms(1) obtain sis bitarray
    where fields: "parse_section_fields (BitString input_bytes) = Inr (sis, bitarray)"
    by (auto simp: parse_def split: sum.splits)
  from parse_section_fields_descriptors [OF fields] obtain n
    where none: "dict_get sis ''splice_descriptors'' = Some PNone"
      and n: "dict_get sis ''splice_descriptor_loop_length'' = Some (PInt n)"
    by blast
  show ?thesis
  proof (cases "n > 0")
    case True
    with assms fields n have False
      by (auto simp: parse_def dict_get_dict_set split: sum.splits)
    then show ?thesis ..
  next
    case False
    with assms(1) fields n have "sec = sis"
      by (simp add: parse_def)
    with none show ?thesis by simp
  qed
qed

theorem zero_loop_length_None_witness:
  "parse [0xFC, 0x30, 0x11, 0, 0, 0, 0, 0, 0, 0, 0xFF, 0xF0, 0x05, 0x06,
          0xFE, 0, 0, 0, 0x2A, 0, 0] =
   Inr (PDict
     [(''section_syntax_indicator'', PBool False), (''private_indicator'', PBool False),
      (''section_length'', PInt 17), (''protocol_version'', PInt 0),
      (''encrypted_packet'', PBool False), (''encryption_algorithm'', PInt 0),
      (''pts_adjustment'', PInt 0), (''cw_index'', PInt 0), (''tier'', PStr ''fff''),
      (''splice_command_length'', PInt 5), (''splice_command_type'', PInt 6),
      (''splice_command'',
         PDict [(''splice_time'',
                 PDict [(''time_specified_flag'', PBool True), (''pts_time'', PInt 42)])]),
      (''splice_descriptor_loop_length'', PInt 0),
      (''splice_descriptors'', PNone)])
   \<and> dict_get
     [(''section_syntax_indicator'', PBool False), (''private_indicator'', PBool False),
      (''section_length'', PInt 17), (''protocol_version'', PInt 0),
      (''encrypted_packet'', PBool False), (''encryption_algorithm'', PInt 0),
      (''pts_adjustment'', PInt 0), (''cw_index'', PInt 0), (''tier'', PStr ''fff''),
      (''splice_command_length'', PInt 5), (''splice_command_type'', PInt 6),
      (''splice_command'',
         PDict [(''splice_time'',
                 PDict [(''time_specified_flag'', PBool True), (''pts_time'', PInt 42)])]),
      (''splice_descriptor_loop_length'', PInt 0),
      (''splice_descriptors'', PNone)] ''splice_descriptors'' = Some PNone"
proof -
  let ?sec = "[(''section_syntax_indicator'', PBool False), (''private_indicator'', PBool False),
      (''section_length'', PInt 17), (''protocol_version'', PInt 0),
      (''encrypted_packet'', PBool False), (''encryption_algorithm'', PInt 0),
      (''pts_adjustment'', PInt 0), (''cw_index'', PInt 0), (''tier'', PStr ''fff''),
      (''splice_command_length'', PInt 5), (''splice_command_type'', PInt 6),
      (''splice_command'',
         PDict [(''splice_time'',
                 PDict [(''time_specified_flag'', PBool True), (''pts_time'', PInt 42)])]),
      (''splice_descriptor_loop_length'', PInt 0),
      (''splice_descriptors'', PNone)]"
  have h1: "parse [0xFC, 0x30, 0x11, 0, 0, 0, 0, 0, 0, 0, 0xFF, 0xF0, 0x05, 0x06,
                   0xFE, 0, 0, 0, 0x2A, 0, 0] = Inr (PDict ?sec)"
    by (simp add: eval_simps cong: bindP_weak_cong)
  have h2: "dict_get ?sec ''splice_descriptor_loop_length'' = Some (PInt 0)"
    by (simp add: dict_get_def)
  from zero_loop_length_None [OF h1 h2] h1 show ?thesis by blast
qed

text \<open>
  C3, amended. When the section fields decode and the descriptor loop raises, the
  decoder returns the section with the header and command fields as they were decoded,
  and with \<^verbatim>\<open>None\<close> under \<^verbatim>\<open>splice_descriptors\<close>: the descriptors decoded before the
  failure are dropped.
\<close>

theorem descriptor_failure_discards_descriptors:
  assumes "parse_section_fields (BitString input_bytes) = Inr (sis, bitarray)"
    and "dict_get sis ''splice_descriptor_loop_length'' = Some (PInt n)"
    and "parse_splice_descriptors bitarray n = Inl err"
  shows "parse input_bytes = Inr (PDict sis) \<and>
         dict_get sis ''splice_descriptors'' = Some PNone"
  using assms parse_section_fields_descriptors(1) [OF assms(1)]
  by (simp add: parse_def)

theorem descriptor_failure_discards_descriptors_witness:
  "parse [0xFC, 0x30, 0x11, 0, 0, 0, 0, 0, 0, 0, 0xFF, 0xF0, 0x01, 0x06, 0x7F,
          0, 3, 2, 1, 0] =
   Inr (PDict
     [(''section_syntax_indicator'', PBool False), (''private_indicator'', PBool False),
      (''section_length'', PInt 17), (''protocol_version'', PInt 0),
      (''encrypted_packet'', PBool False), (''encryption_algorithm'', PInt 0),
      (''pts_adjustment'', PInt 0), (''cw_index'', PInt 0), (''tier'', PStr ''fff''),
      (''splice_command_length'', PInt 1), (''splice_command_type'', PInt 6),
      (''splice_command'',
         PDict [(''splice_time'', PDict [(''time_specified_flag'', PBool False)])]),
      (''splice_descriptor_loop_length'', PInt 3),
      (''splice_descriptors'', PNone)])"
proof -
  let ?input = "[0xFC, 0x30, 0x11, 0, 0, 0, 0, 0, 0, 0, 0xFF, 0xF0, 0x01, 0x06, 0x7F,
                 0, 3, 2, 1, 0] :: 8 word list"
  let ?sis = "[(''section_syntax_indicator'', PBool False), (''private_indicator'', PBool False),
      (''section_length'', PInt 17), (''protocol_version'', PInt 0),
      (''encrypted_packet'', PBool False), (''encryption_algorithm'', PInt 0),
      (''pts_adjustment'', PInt 0), (''cw_index'', PInt 0), (''tier'', PStr ''fff''),
      (''splice_command_length'', PInt 1), (''splice_command_type'', PInt 6),
      (''splice_command'',
         PDict [(''splice_time'', PDict [(''time_specified_flag'', PBool False)])]),
      (''splice_descriptor_loop_length'', PInt 3),
      (''splice_descriptors'', PNone)]"
  have h1: "parse_section_fields (BitString ?input) = Inr (?sis, (BitString ?input)\<lparr>pos := 136\<rparr>)"
    by (simp add: eval_simps cong: bindP_weak_cong)
  have h2: "dict_get ?sis ''splice_descriptor_loop_length'' = Some (PInt 3)"
    by (simp add: dict_get_def)
  have h3: "parse_splice_descriptors ((BitString ?input)\<lparr>pos := 136\<rparr>) 3 = Inl OutOfData"
    by (simp add: eval_simps cong: bindP_weak_cong)
  from descriptor_failure_discards_descriptors [OF h1 h2 h3] show ?thesis by blast
qed

section \<open>The splice insert command\<close>

lemma read_bool_Inr:
  "read_bool b = Inr (v, b') \<Longrightarrow> b' = b\<lparr>pos := pos b + 1\<rparr>"
  by (auto simp: read_bool_def read_bits_def bindP_def returnP_def split: if_splits)

lemma skip_Inr: "skip n b = Inr (u, b') \<Longrightarrow> b' = b\<lparr>pos := pos b + n\<rparr>"
  by (auto simp: skip_def split: if_splits)

lemma map_of_dict_set:
  "map_of (dict_set d k v) k' = (if k' = k then Some v else map_of d k')"
  using dict_get_dict_set [of d k v k'] by (simp add: dict_get_def)


text \<open>
  What a splice insert record holds when the decoder returns one: the cancel indicator
  is clear and the program splice flag is set, since the decoder returns \<^verbatim>\<open>None\<close>
  with the indicator set and raises with the flag clear; the list stored under
  \<^verbatim>\<open>components\<close> at the start is never extended.
\<close>

lemma parse_splice_insert_result:
  assumes "parse_splice_insert b = Inr (PDict ssi, b')"
  shows "dict_get ssi ''splice_event_cancel_indicator'' = Some (PBool False) \<and>
         dict_get ssi ''program_splice_flag'' = Some (PBool True) \<and>
         dict_get ssi ''components'' = Some (PList [])"
  using assms unfolding parse_splice_insert_def
  by (clarsimp elim!: bindP_Inr_E
      simp: Let_def dict_get_def map_of_dict_set xrange_def split: if_splits)

text \<open>
  C10. A splice insert record that the decoder returns (it returns one only when the
  cancel indicator is clear) holds a list under \<^verbatim>\<open>components\<close>, and the list is empty
  when the program splice flag is set.
\<close>

theorem splice_insert_components_present:
  assumes "parse_splice_insert b = Inr (PDict ssi, b')"
  shows "dict_get ssi ''splice_event_cancel_indicator'' = Some (PBool False) \<and>
         (\<exists>comps. dict_get ssi ''components'' = Some (PList comps) \<and>
            (dict_get ssi ''program_splice_flag'' = Some (PBool True) \<longrightarrow> comps = []))"
  using parse_splice_insert_result [OF assms] by auto

theorem splice_insert_components_present_witness:
  "parse_splice_insert (BitString [0, 0, 0, 1, 0x7F, 0xDF, 0, 1, 0, 0]) =
     Inr (PDict [(''splice_id'', PInt 1), (''components'', PList []),
                 (''splice_event_cancel_indicator'', PBool False),
                 (''out_of_network_indicator'', PBool True),
                 (''program_splice_flag'', PBool True),
                 (''duration_flag'', PBool False),
                 (''splice_immediate_flag'', PBool True),
                 (''unique_program_id'', PInt 1), (''avail_num'', PInt 0),
                 (''avails_expected'', PInt 0)],
          (BitString [0, 0, 0, 1, 0x7F, 0xDF, 0, 1, 0, 0])\<lparr>pos := 80\<rparr>)
   \<and> dict_get [(''splice_id'', PInt 1), (''components'', PList []),
                 (''splice_event_cancel_indicator'', PBool False),
                 (''out_of_network_indicator'', PBool True),
                 (''program_splice_flag'', PBool True),
                 (''duration_flag'', PBool False),
                 (''splice_immediate_flag'', PBool True),
                 (''unique_program_id'', PInt 1), (''avail_num'', PInt 0),
                 (''avails_expected'', PInt 0)] ''components'' = Some (PList [])"
proof -
  let ?ssi = "[(''splice_id'', PInt 1), (''components'', PList []),
                 (''splice_event_cancel_indicator'', PBool False),
                 (''out_of_network_indicator'', PBool True),
                 (''program_splice_flag'', PBool True),
                 (''duration_flag'', PBool False),
                 (''splice_immediate_flag'', PBool True),
                 (''unique_program_id'', PInt 1), (''avail_num'', PInt 0),
                 (''avails_expected'', PInt 0)]"
  have h: "parse_splice_insert (BitString [0, 0, 0, 1, 0x7F, 0xDF, 0, 1, 0, 0]) =
             Inr (PDict ?ssi, (BitString [0, 0, 0, 1, 0x7F, 0xDF, 0, 1, 0, 0])\<lparr>pos := 80\<rparr>)"
    by (simp add: eval_simps cong: bindP_weak_cong)
  have psf: "dict_get ?ssi ''program_splice_flag'' = Some (PBool True)"
    by (simp add: dict_get_def)
  from splice_insert_components_present [OF h] psf h show ?thesis by auto
qed

text \<open>
  C5. Two splice insert sections (command type 5) with the cancel indicator and the
  program splice flag clear and the immediate flag set. The first has a component
  count of 2 and two components (tags 10 and 11, the second with a time of 5), the
  second a component count of 0. In both the count is read and the \<^verbatim>\<open>for\<close> statement
  then raises \<^verbatim>\<open>NameError\<close>: no component is decoded, and the decoder returns no
  section.
\<close>

theorem splice_insert_component_loop_raises:
  "parse [0xFC, 0x30, 0x25, 0, 0, 0, 0, 0, 0, 0, 0xFF, 0xF0, 0x13, 0x05,
          0, 0, 0, 2, 0x7F, 0x1F, 2, 0x0A, 0x7F, 0x0B, 0xFE, 0, 0, 0, 5, 0, 1, 0, 0,
          0, 0] = Inl NameError
   \<and> parse [0xFC, 0x30, 0x1D, 0, 0, 0, 0, 0, 0, 0, 0xFF, 0xF0, 0x0B, 0x05,
            0, 0, 0, 2, 0x7F, 0x1F, 0, 0, 1, 0, 0,
            0, 0] = Inl NameError"
  by (simp add: eval_simps cong: bindP_weak_cong)

section \<open>The segmentation descriptor\<close>




















end
